theory Spec2Isabelle
  imports Main
begin

section \<open>Task messages and their validation (server/state/state.py)\<close>

text \<open>
  Byte strings and text are both lists of 8-bit characters. A \<open>Node\<close> carries the two
  fields the validation reads. A \<open>Task\<close> holds an optional producer (protobuf
  \<open>HasField("producer")\<close> is \<open>producer t \<noteq> None\<close>), the consumer as it is read by
  \<open>message.task.consumer\<close>, the ancestry list and the delivery timestamp, which is the
  empty string until the task is delivered.
\<close>

type_synonym bytes = string

record Node =
  node_id :: int
  anonymous :: bool

record Task =
  producer :: "Node option"
  consumer :: Node
  ancestry :: "string list"
  delivered_at :: string

record TaskMsg =
  task_id :: string
  run_id :: int
  task :: Task

datatype message = TaskIns TaskMsg | TaskRes TaskMsg

fun msg_of :: "message \<Rightarrow> TaskMsg" where
  "msg_of (TaskIns m) = m"
| "msg_of (TaskRes m) = m"

fun is_TaskRes :: "message \<Rightarrow> bool" where
  "is_TaskRes (TaskRes m) = True"
| "is_TaskRes (TaskIns m) = False"

text \<open>
  \<open>is_valid_task_run\<close> follows the source check by check, in the source's order, and
  returns the result together with the format string of the error that is logged on the
  way out (none when the message is valid). \<open>is_valid_task\<close> is the returned boolean.
\<close>

definition is_valid_task_run :: "message \<Rightarrow> bool \<times> string list" where
  "is_valid_task_run message =
     (let t = task (msg_of message) in
      if anonymous (consumer t) \<and> node_id (consumer t) \<noteq> 0 then
        (False, [''`task.consumer.anonymous` is `True` then `node_id` must be 0''])
      else if \<not> anonymous (consumer t) \<and> node_id (consumer t) = 0 then
        (False, [''`task.consumer.anonymous` is `False` then `node_id` must not be 0''])
      else
        (case (case producer t of
                 None \<Rightarrow> None
               | Some p \<Rightarrow>
                   if anonymous p \<and> node_id p \<noteq> 0 then
                     Some ''`task.producer.anonymous` is `True` then `node_id` must be 0''
                   else if \<not> anonymous p \<and> node_id p = 0 then
                     Some ''`task.producer.anonymous` is `False` then `node_id` must not be 0''
                   else None) of
           Some err \<Rightarrow> (False, [err])
         | None \<Rightarrow>
             if is_TaskRes message \<and> length (ancestry t) = 0 then
               (False, [''`task_res.task.ancestry` may not be empty:''])
             else (True, [])))"

definition is_valid_task :: "message \<Rightarrow> bool" where
  "is_valid_task message = fst (is_valid_task_run message)"

text \<open>The coupling between the two fields of a node, in the words of the specification.\<close>

definition node_coupled :: "Node \<Rightarrow> bool" where
  "node_coupled n \<longleftrightarrow>
     (anonymous n \<longrightarrow> node_id n = 0) \<and> (\<not> anonymous n \<longrightarrow> node_id n \<noteq> 0)"


section \<open>The driver client (driver/driver.py)\<close>

text \<open>The status codes of gRPC, and the error raised by a failed remote call.\<close>

datatype StatusCode =
    OK | CANCELLED | UNKNOWN | INVALID_ARGUMENT | DEADLINE_EXCEEDED | NOT_FOUND
  | ALREADY_EXISTS | PERMISSION_DENIED | UNAUTHENTICATED | RESOURCE_EXHAUSTED
  | FAILED_PRECONDITION | ABORTED | OUT_OF_RANGE | UNIMPLEMENTED | INTERNAL
  | UNAVAILABLE | DATA_LOSS

record RpcError =
  code :: StatusCode
  details :: string

text \<open>
  The arguments \<open>RetryInvoker\<close> is constructed with. The class itself lives in
  \<open>flwr.common.retry_invoker\<close>; the record keeps what the constructor is given: the
  wait generator, the exception class that is retried, the two bounds and the give-up
  predicate.
\<close>

datatype wait_generator = exponential | constant_wait | full_jitter

datatype exception_class = RpcError_class | Exception_class

record RetryInvoker =
  wait_gen_factory :: wait_generator
  recoverable_exceptions :: exception_class
  max_tries :: "nat option"
  max_time :: "int option"
  should_giveup :: "(RpcError \<Rightarrow> bool) option"

datatype pyexc =
    AttributeError string
  | NameError string
  | TypeError string
  | RpcFailure RpcError
  | binascii_Error
  | ValueError

datatype GrpcDriver = GrpcDriver string "bytes option" bool

text \<open>
  The instance attributes of a \<open>Driver\<close>. \<open>run_id_self\<close> is \<open>self.run_id\<close> (the name
  \<open>run_id\<close> is the field of a task message). \<open>workload_id\<close> is not created by
  \<open>__init__\<close>: \<open>None\<close> here means that the attribute does not exist, and reading it
  raises \<open>AttributeError\<close>.
\<close>

record Driver =
  addr :: string
  root_certificates :: "bytes option"
  grpc_driver :: "GrpcDriver option"
  run_id_self :: "int option"
  workload_id :: "int option"
  node :: Node
  invoker :: RetryInvoker

definition Driver_init :: "string \<Rightarrow> bytes option \<Rightarrow> RetryInvoker option \<Rightarrow> Driver" where
  "Driver_init driver_service_address root_certs invoker_arg =
     \<lparr> addr = driver_service_address,
       root_certificates = root_certs,
       grpc_driver = None,
       run_id_self = None,
       workload_id = None,
       node = \<lparr> node_id = 0, anonymous = True \<rparr>,
       invoker =
         (case invoker_arg of
            None \<Rightarrow>
              (let err_codes = [UNAVAILABLE] in
               \<lparr> wait_gen_factory = exponential,
                 recoverable_exceptions = RpcError_class,
                 max_tries = Some 10,
                 max_time = Some 300,
                 should_giveup = Some (\<lambda>e. code e \<notin> set err_codes) \<rparr>)
          | Some i \<Rightarrow> i) \<rparr>"

text \<open>
  What the module and the class define. \<open>module_globals\<close> are the names bound at module
  level (the imports and the class); \<open>Driver_instance_attrs\<close> are the attributes
  \<open>__init__\<close> sets.
\<close>

definition module_globals :: "string list" where
  "module_globals =
     [''Lock'', ''Iterable'', ''List'', ''Optional'', ''Tuple'', ''cast'', ''RpcError'',
      ''StatusCode'', ''RetryInvoker'', ''exponential'', ''DEFAULT_SERVER_ADDRESS_DRIVER'',
      ''GrpcDriver'', ''CreateRunRequest'', ''GetNodesRequest'', ''GetNodesResponse'',
      ''PullTaskResRequest'', ''PullTaskResResponse'', ''PushTaskInsRequest'',
      ''PushTaskInsResponse'', ''Node'', ''TaskIns'', ''TaskRes'', ''Driver'']"

definition Driver_instance_attrs :: "string list" where
  "Driver_instance_attrs =
     [''addr'', ''root_certificates'', ''grpc_driver'', ''run_id'', ''node'', ''lock'',
      ''invoker'']"

text \<open>
  The collaborators of the driver that are not part of this file: the attribute names of
  class \<open>GrpcDriver\<close>, the answer of the create-workload call, and the result of
  \<open>self.invoker.invoke(grpc_driver.push_task_ins, req)\<close>.
\<close>

record driver_env =
  GrpcDriver_attrs :: "string list"
  create_workload :: "pyexc + int"
  invoke_push_task_ins :: "RetryInvoker \<Rightarrow> GrpcDriver \<Rightarrow> TaskMsg list \<Rightarrow> pyexc + string list"

type_synonym helper_method =
  "driver_env \<Rightarrow> Driver \<Rightarrow> (pyexc + GrpcDriver \<times> int option) \<times> Driver"

definition get_grpc_driver_and_workload_id :: helper_method where
  "get_grpc_driver_and_workload_id env self =
     (case (case grpc_driver self of
              None \<Rightarrow> Inr None
            | Some g \<Rightarrow>
                (case workload_id self of
                   None \<Rightarrow> Inl (AttributeError ''workload_id'')
                 | Some w \<Rightarrow> Inr (Some g))) of
        Inl e \<Rightarrow> (Inl e, self)
      | Inr (Some g) \<Rightarrow> (Inr (g, run_id_self self), self)
      | Inr None \<Rightarrow>
          (let g = GrpcDriver (addr self) (root_certificates self) True;
               self1 = self\<lparr>grpc_driver := Some g\<rparr>
           in if ''create_workload'' \<notin> set (GrpcDriver_attrs env) then
                (Inl (AttributeError ''create_workload''), self1)
              else if ''CreateWorkloadRequest'' \<notin> set module_globals then
                (Inl (NameError ''CreateWorkloadRequest''), self1)
              else
                (case create_workload env of
                   Inl e \<Rightarrow> (Inl e, self1)
                 | Inr wid \<Rightarrow>
                     (let self2 = self1\<lparr>workload_id := Some wid\<rparr>
                      in (Inr (g, run_id_self self2), self2)))))"

text \<open>
  The namespace of class \<open>Driver\<close>: every \<open>def\<close> of the class body, in order. The one
  helper that returns the connection and the identifier is kept with its body; the other
  members are only named.
\<close>

datatype member = HelperMethod helper_method | OtherMember

definition Driver_namespace :: "(string \<times> member) list" where
  "Driver_namespace =
     [(''__init__'', OtherMember),
      (''_get_grpc_driver_and_workload_id'', HelperMethod get_grpc_driver_and_workload_id),
      (''get_nodes'', OtherMember),
      (''push_task_ins'', OtherMember),
      (''pull_task_res'', OtherMember),
      (''__del__'', OtherMember)]"

definition Driver_getattr :: "string \<Rightarrow> pyexc + member" where
  "Driver_getattr name =
     (if name \<in> set Driver_instance_attrs then Inr OtherMember
      else (case map_of Driver_namespace name of
              Some m \<Rightarrow> Inr m
            | None \<Rightarrow> Inl (AttributeError name)))"

definition push_task_ins ::
  "driver_env \<Rightarrow> Driver \<Rightarrow> TaskMsg list \<Rightarrow> (pyexc + string list) \<times> Driver" where
  "push_task_ins env self task_ins_list =
     (case Driver_getattr ''_get_grpc_driver_and_run_id'' of
        Inl e \<Rightarrow> (Inl e, self)
      | Inr OtherMember \<Rightarrow> (Inl (TypeError ''_get_grpc_driver_and_run_id''), self)
      | Inr (HelperMethod f) \<Rightarrow>
          (case f env self of
             (Inl e, self1) \<Rightarrow> (Inl e, self1)
           | (Inr (g, rid), self1) \<Rightarrow>
               (case (if task_ins_list = [] then Inr []
                      else (case rid of
                              None \<Rightarrow> Inl (TypeError ''run_id'')
                            | Some r \<Rightarrow> Inr (map (\<lambda>task_ins. task_ins\<lparr>run_id := r\<rparr>) task_ins_list))) of
                  Inl e \<Rightarrow> (Inl e, self1)
                | Inr stamped \<Rightarrow>
                    (case invoke_push_task_ins env (invoker self1) g stamped of
                       Inl e \<Rightarrow> (Inl e, self1)
                     | Inr task_ids \<Rightarrow> (Inr task_ids, self1)))))"


section \<open>The authentication interceptor (server/server_interceptor.py)\<close>

subsection \<open>Base64 with the URL-safe alphabet\<close>

text \<open>
  \<open>base64.urlsafe_b64decode\<close> maps \<open>-\<close> and \<open>_\<close> to \<open>+\<close> and \<open>/\<close> and then decodes as
  \<open>binascii.a2b_base64\<close> does when it is not strict: a character outside the alphabet is
  skipped, a complete padding ends the input, and data that stops inside a quad raises
  \<open>binascii.Error\<close>. The loop keeps the variables of the C function.
\<close>

definition b64_alphabet :: string where
  "b64_alphabet = ''ABCDEFGHIJKLMNOPQRSTUVWXYZabcdefghijklmnopqrstuvwxyz0123456789+/''"

fun index_of :: "'a \<Rightarrow> 'a list \<Rightarrow> nat option" where
  "index_of x [] = None"
| "index_of x (y # ys) = (if x = y then Some 0 else map_option Suc (index_of x ys))"

definition table_a2b_base64 :: "char \<Rightarrow> nat option" where
  "table_a2b_base64 c = index_of c b64_alphabet"

fun a2b_base64_loop :: "nat \<Rightarrow> nat \<Rightarrow> nat \<Rightarrow> bytes \<Rightarrow> bytes \<Rightarrow> pyexc + bytes" where
  "a2b_base64_loop quad_pos leftchar pads bin_data [] =
     (if quad_pos \<noteq> 0 then Inl binascii_Error else Inr bin_data)"
| "a2b_base64_loop quad_pos leftchar pads bin_data (this_ch # ascii_data) =
     (if this_ch = CHR ''='' then
        (if quad_pos \<ge> 2 \<and> quad_pos + (pads + 1) \<ge> 4 then Inr bin_data
         else a2b_base64_loop quad_pos leftchar (if quad_pos \<ge> 2 then pads + 1 else pads)
                bin_data ascii_data)
      else
        (case table_a2b_base64 this_ch of
           None \<Rightarrow> a2b_base64_loop quad_pos leftchar pads bin_data ascii_data
         | Some v \<Rightarrow>
             if quad_pos = 0 then a2b_base64_loop 1 v 0 bin_data ascii_data
             else if quad_pos = 1 then
               a2b_base64_loop 2 (v mod 16) 0
                 (bin_data @ [char_of (leftchar * 4 + v div 16)]) ascii_data
             else if quad_pos = 2 then
               a2b_base64_loop 3 (v mod 4) 0
                 (bin_data @ [char_of (leftchar * 16 + v div 4)]) ascii_data
             else
               a2b_base64_loop 0 0 0
                 (bin_data @ [char_of (leftchar * 64 + v)]) ascii_data))"

definition urlsafe_decode_translation :: "char \<Rightarrow> char" where
  "urlsafe_decode_translation c =
     (if c = CHR ''-'' then CHR ''+'' else if c = CHR ''_'' then CHR ''/'' else c)"

definition urlsafe_b64decode :: "bytes \<Rightarrow> pyexc + bytes" where
  "urlsafe_b64decode s = a2b_base64_loop 0 0 0 [] (map urlsafe_decode_translation s)"

fun b2a_base64 :: "bytes \<Rightarrow> bytes" where
  "b2a_base64 (a # b # c # rest) =
     (let x = of_char a; y = of_char b; z = (of_char c :: nat) in
      [b64_alphabet ! (x div 4), b64_alphabet ! ((x mod 4) * 16 + y div 16),
       b64_alphabet ! ((y mod 16) * 4 + z div 64), b64_alphabet ! (z mod 64)]
      @ b2a_base64 rest)"
| "b2a_base64 [a, b] =
     (let x = of_char a; y = (of_char b :: nat) in
      [b64_alphabet ! (x div 4), b64_alphabet ! ((x mod 4) * 16 + y div 16),
       b64_alphabet ! ((y mod 16) * 4), CHR ''=''])"
| "b2a_base64 [a] =
     (let x = (of_char a :: nat) in
      [b64_alphabet ! (x div 4), b64_alphabet ! ((x mod 4) * 16), CHR ''='', CHR ''=''])"
| "b2a_base64 [] = []"

definition urlsafe_encode_translation :: "char \<Rightarrow> char" where
  "urlsafe_encode_translation c =
     (if c = CHR ''+'' then CHR ''-'' else if c = CHR ''/'' then CHR ''_'' else c)"

definition urlsafe_b64encode :: "bytes \<Rightarrow> bytes" where
  "urlsafe_b64encode s = map urlsafe_encode_translation (b2a_base64 s)"

subsection \<open>Requests, metadata and the trusted crypto library\<close>

text \<open>
  A request is one of the four Fleet messages or any other object; the payload is what is
  serialized. A metadata value is text or bytes. The key conversion, the key agreement,
  the HMAC check and the deterministic serialization belong to the crypto and protobuf
  libraries: they are parameters of the model, and the two key functions may raise.
\<close>

datatype request =
    CreateNodeRequest bytes
  | DeleteNodeRequest bytes
  | PullTaskInsRequest bytes
  | PushTaskResRequest bytes
  | OtherRequest bytes

datatype header_value = Str string | Bytes bytes

definition PUBLIC_KEY_HEADER :: string where
  "PUBLIC_KEY_HEADER = ''public-key''"

definition AUTH_TOKEN_HEADER :: string where
  "AUTH_TOKEN_HEADER = ''auth-token''"

definition get_value_from_tuples :: "string \<Rightarrow> (string \<times> header_value) list \<Rightarrow> bytes" where
  "get_value_from_tuples key_string tuples =
     (case (case find (\<lambda>(key, value). key = key_string) tuples of
              None \<Rightarrow> Str []
            | Some (key, value) \<Rightarrow> value) of
        Str s \<Rightarrow> s
      | Bytes b \<Rightarrow> b)"

record ('pk, 'sk) crypto =
  bytes_to_public_key :: "bytes \<Rightarrow> pyexc + 'pk"
  generate_shared_key :: "'sk \<Rightarrow> 'pk \<Rightarrow> pyexc + bytes"
  public_key_to_bytes :: "'pk \<Rightarrow> bytes"
  verify_hmac :: "bytes \<Rightarrow> bytes \<Rightarrow> bytes \<Rightarrow> bool"
  SerializeToString :: "request \<Rightarrow> bytes"

text \<open>
  The interceptor holds the server's key pair; \<open>client_public_keys\<close> is what
  \<open>self.state.get_client_public_keys()\<close> returns when the call is handled.
\<close>

record ('pk, 'sk) AuthenticateServerInterceptor =
  server_private_key :: 'sk
  server_public_key :: 'pk
  client_public_keys :: "bytes set"

text \<open>
  What a call does besides returning: taking and releasing \<open>self._lock\<close>, sending initial
  metadata, aborting, and calling the wrapped handler. \<open>context.abort\<close> raises, so
  nothing of the call runs after it; an exception of a library call ends the call too.
\<close>

datatype event =
    LockAcquire
  | LockRelease
  | SendInitialMetadata "(string \<times> bytes) list"
  | Abort StatusCode string
  | HandlerCall request

datatype 'r outcome = Returned 'r | Aborted StatusCode string | Raised pyexc

fun is_CreateNodeRequest :: "request \<Rightarrow> bool" where
  "is_CreateNodeRequest (CreateNodeRequest b) = True"
| "is_CreateNodeRequest r = False"

fun is_authenticated_kind :: "request \<Rightarrow> bool" where
  "is_authenticated_kind (DeleteNodeRequest b) = True"
| "is_authenticated_kind (PullTaskInsRequest b) = True"
| "is_authenticated_kind (PushTaskResRequest b) = True"
| "is_authenticated_kind r = False"

text \<open>The statements of the \<open>with\<close> block before its \<open>return\<close>.\<close>

definition auth_steps ::
  "('pk, 'sk) crypto \<Rightarrow> ('pk, 'sk) AuthenticateServerInterceptor \<Rightarrow> request \<Rightarrow>
   (string \<times> header_value) list \<Rightarrow> unit outcome \<times> event list" where
  "auth_steps lib self request invocation_metadata =
     (case urlsafe_b64decode (get_value_from_tuples PUBLIC_KEY_HEADER invocation_metadata) of
        Inl e \<Rightarrow> (Raised e, [])
      | Inr client_public_key_bytes \<Rightarrow>
          (let is_public_key_known = client_public_key_bytes \<in> client_public_keys self in
           if is_public_key_known then
             if is_CreateNodeRequest request then
               (Returned (),
                [SendInitialMetadata
                   [(PUBLIC_KEY_HEADER,
                     urlsafe_b64encode (public_key_to_bytes lib (server_public_key self)))]])
             else if is_authenticated_kind request then
               (case urlsafe_b64decode
                       (get_value_from_tuples AUTH_TOKEN_HEADER invocation_metadata) of
                  Inl e \<Rightarrow> (Raised e, [])
                | Inr hmac_value \<Rightarrow>
                    (case bytes_to_public_key lib client_public_key_bytes of
                       Inl e \<Rightarrow> (Raised e, [])
                     | Inr client_public_key \<Rightarrow>
                         (case generate_shared_key lib (server_private_key self)
                                 client_public_key of
                            Inl e \<Rightarrow> (Raised e, [])
                          | Inr shared_secret \<Rightarrow>
                              (let verify =
                                     verify_hmac lib shared_secret
                                       (SerializeToString lib request) hmac_value
                               in if \<not> verify then
                                    (Aborted UNAUTHENTICATED ''Access denied!'',
                                     [Abort UNAUTHENTICATED ''Access denied!''])
                                  else (Returned (), [])))))
             else
               (Aborted UNAUTHENTICATED ''Access denied!'',
                [Abort UNAUTHENTICATED ''Access denied!''])
           else
             (Aborted UNAUTHENTICATED ''Access denied!'',
              [Abort UNAUTHENTICATED ''Access denied!''])))"

text \<open>
  The whole body runs inside \<open>with self._lock\<close>: the lock is taken first and released when
  the block is left, by the \<open>return\<close> of the handler's result, by an abort or by an
  exception.
\<close>

definition generic_method_handler ::
  "('pk, 'sk) crypto \<Rightarrow> ('pk, 'sk) AuthenticateServerInterceptor \<Rightarrow>
   (request \<Rightarrow> 'r outcome) \<Rightarrow> request \<Rightarrow> (string \<times> header_value) list \<Rightarrow>
   'r outcome \<times> event list" where
  "generic_method_handler lib self message_handler request invocation_metadata =
     (case auth_steps lib self request invocation_metadata of
        (Returned u, evs) \<Rightarrow>
          (message_handler request, [LockAcquire] @ evs @ [HandlerCall request] @ [LockRelease])
      | (Aborted c d, evs) \<Rightarrow> (Aborted c d, [LockAcquire] @ evs @ [LockRelease])
      | (Raised e, evs) \<Rightarrow> (Raised e, [LockAcquire] @ evs @ [LockRelease]))"

text \<open>
  Reading a trace: \<open>handler_called\<close> says whether the wrapped handler ran;
  \<open>handler_outside_lock held\<close> says that every call of the handler happens while the lock
  is free, \<open>handler_inside_lock held\<close> that every one happens while it is taken
  (\<open>held\<close> is the state of the lock before the trace).
\<close>

fun is_HandlerCall :: "event \<Rightarrow> bool" where
  "is_HandlerCall (HandlerCall r) = True"
| "is_HandlerCall e = False"

definition handler_called :: "event list \<Rightarrow> bool" where
  "handler_called evs = list_ex is_HandlerCall evs"

fun handler_outside_lock :: "bool \<Rightarrow> event list \<Rightarrow> bool" where
  "handler_outside_lock held [] = True"
| "handler_outside_lock held (LockAcquire # evs) = handler_outside_lock True evs"
| "handler_outside_lock held (LockRelease # evs) = handler_outside_lock False evs"
| "handler_outside_lock held (HandlerCall r # evs) = (\<not> held \<and> handler_outside_lock held evs)"
| "handler_outside_lock held (e # evs) = handler_outside_lock held evs"

fun handler_inside_lock :: "bool \<Rightarrow> event list \<Rightarrow> bool" where
  "handler_inside_lock held [] = True"
| "handler_inside_lock held (LockAcquire # evs) = handler_inside_lock True evs"
| "handler_inside_lock held (LockRelease # evs) = handler_inside_lock False evs"
| "handler_inside_lock held (HandlerCall r # evs) = (held \<and> handler_inside_lock held evs)"
| "handler_inside_lock held (e # evs) = handler_inside_lock held evs"

text \<open>
  The condition under which the specification lets a call through: the decoded key is
  registered and the request is a node creation, or one of the three authenticated kinds
  with an HMAC that verifies.
\<close>

definition auth_ok ::
  "('pk, 'sk) crypto \<Rightarrow> ('pk, 'sk) AuthenticateServerInterceptor \<Rightarrow> request \<Rightarrow>
   (string \<times> header_value) list \<Rightarrow> bool" where
  "auth_ok lib self request md =
     (case urlsafe_b64decode (get_value_from_tuples PUBLIC_KEY_HEADER md) of
        Inl e \<Rightarrow> False
      | Inr kb \<Rightarrow>
          kb \<in> client_public_keys self \<and>
          (is_CreateNodeRequest request \<or>
           (is_authenticated_kind request \<and>
            (case urlsafe_b64decode (get_value_from_tuples AUTH_TOKEN_HEADER md) of
               Inl e \<Rightarrow> False
             | Inr h \<Rightarrow>
                 (case bytes_to_public_key lib kb of
                    Inl e \<Rightarrow> False
                  | Inr k \<Rightarrow>
                      (case generate_shared_key lib (server_private_key self) k of
                         Inl e \<Rightarrow> False
                       | Inr s \<Rightarrow> verify_hmac lib s (SerializeToString lib request) h))))))"

text \<open>A small crypto library and interceptor for concrete runs.\<close>

definition toy_crypto :: "(bytes, bytes) crypto" where
  "toy_crypto =
     \<lparr> bytes_to_public_key = (\<lambda>b. if b = [] then Inl ValueError else Inr b),
       generate_shared_key = (\<lambda>sk pk. Inr (sk @ pk)),
       public_key_to_bytes = (\<lambda>pk. pk),
       verify_hmac = (\<lambda>key msg tag. tag = key @ msg),
       SerializeToString =
         (\<lambda>r. case r of CreateNodeRequest b \<Rightarrow> b | DeleteNodeRequest b \<Rightarrow> b
               | PullTaskInsRequest b \<Rightarrow> b | PushTaskResRequest b \<Rightarrow> b | OtherRequest b \<Rightarrow> b) \<rparr>"

definition toy_interceptor :: "(bytes, bytes) AuthenticateServerInterceptor" where
  "toy_interceptor =
     \<lparr> server_private_key = ''S'', server_public_key = ''ABC'', client_public_keys = {''ABC''} \<rparr>"

text \<open>The same library with an HMAC check that never passes.\<close>

definition rejecting_crypto :: "(bytes, bytes) crypto" where
  "rejecting_crypto = toy_crypto\<lparr>verify_hmac := (\<lambda>key msg tag. False)\<rparr>"

definition echo_handler :: "request \<Rightarrow> request outcome" where
  "echo_handler r = Returned r"


section \<open>The task store\<close>

text \<open>
  Modelled from the spec: \<open>State.store_task_ins\<close> and \<open>State.get_task_ins\<close> are abstract
  in state.py and no implementation is part of the sources. The store keeps the
  instructions in the order they were stored. \<open>store_task_ins\<close> validates, rejects an
  identifier that is already in use (the identifier assigned is fresh), clears
  \<open>delivered_at\<close> and appends. \<open>get_task_ins\<close> selects the undelivered instructions for
  the given node, or for the anonymous consumer when no node is given, keeps at most
  \<open>limit\<close> of them, and sets \<open>delivered_at\<close> of each one returned to the current time.
\<close>

record State =
  task_ins_store :: "TaskMsg list"

definition store_task_ins :: "string \<Rightarrow> TaskMsg \<Rightarrow> State \<Rightarrow> string option \<times> State" where
  "store_task_ins fresh_id task_ins st =
     (if \<not> is_valid_task (TaskIns task_ins) then (None, st)
      else if fresh_id \<in> set (map task_id (task_ins_store st)) then (None, st)
      else
        (let stored = task_ins\<lparr>task_id := fresh_id,
                               task := (task task_ins)\<lparr>delivered_at := []\<rparr>\<rparr>
         in (Some fresh_id, st\<lparr>task_ins_store := task_ins_store st @ [stored]\<rparr>)))"

definition task_ins_matches :: "int option \<Rightarrow> TaskMsg \<Rightarrow> bool" where
  "task_ins_matches for_node t =
     (delivered_at (task t) = [] \<and>
      (case for_node of
         Some n \<Rightarrow> node_id (consumer (task t)) = n \<and> \<not> anonymous (consumer (task t))
       | None \<Rightarrow> node_id (consumer (task t)) = 0 \<and> anonymous (consumer (task t))))"

definition mark_delivered :: "string \<Rightarrow> string list \<Rightarrow> TaskMsg \<Rightarrow> TaskMsg" where
  "mark_delivered now ids t =
     (if task_id t \<in> set ids then t\<lparr>task := (task t)\<lparr>delivered_at := now\<rparr>\<rparr> else t)"

definition get_task_ins ::
  "int option \<Rightarrow> int option \<Rightarrow> string \<Rightarrow> State \<Rightarrow> TaskMsg list \<times> State" where
  "get_task_ins for_node limit now st =
     (let found = filter (task_ins_matches for_node) (task_ins_store st);
          chosen = (case limit of None \<Rightarrow> found | Some l \<Rightarrow> take (nat l) found);
          ids = map task_id chosen
      in (map (mark_delivered now ids) chosen,
          st\<lparr>task_ins_store := map (mark_delivered now ids) (task_ins_store st)\<rparr>))"

text \<open>
  A history of calls on one store, and the instructions all its \<open>get_task_ins\<close> calls
  return, in order.
\<close>

datatype store_op =
    StoreTaskIns string TaskMsg
  | GetTaskIns "int option" "int option" string

fun op_time_set :: "store_op \<Rightarrow> bool" where
  "op_time_set (StoreTaskIns u t) = True"
| "op_time_set (GetTaskIns for_node limit now) = (now \<noteq> [])"

fun returned_by :: "store_op list \<Rightarrow> State \<Rightarrow> TaskMsg list" where
  "returned_by [] st = []"
| "returned_by (StoreTaskIns u t # ops) st = returned_by ops (snd (store_task_ins u t st))"
| "returned_by (GetTaskIns for_node limit now # ops) st =
     fst (get_task_ins for_node limit now st) @ returned_by ops (snd (get_task_ins for_node limit now st))"

definition empty_State :: State where
  "empty_State = \<lparr> task_ins_store = [] \<rparr>"

text \<open>
  The identifiers of the stored instructions that are already delivered, and the
  identifiers a \<open>get_task_ins\<close> call selects.
\<close>

definition delivered_ids :: "State \<Rightarrow> string set" where
  "delivered_ids st =
     set (map task_id (filter (\<lambda>t. delivered_at (task t) \<noteq> []) (task_ins_store st)))"

definition chosen_ids :: "int option \<Rightarrow> int option \<Rightarrow> State \<Rightarrow> string list" where
  "chosen_ids n l st =
     map task_id
       (case l of None \<Rightarrow> filter (task_ins_matches n) (task_ins_store st)
        | Some k \<Rightarrow> take (nat k) (filter (task_ins_matches n) (task_ins_store st)))"

text \<open>Sample messages for concrete runs.\<close>

definition sample_task :: Task where
  "sample_task =
     \<lparr> producer = Some \<lparr> node_id = 7, anonymous = False \<rparr>,
       consumer = \<lparr> node_id = 0, anonymous = True \<rparr>,
       ancestry = [''t0''],
       delivered_at = [] \<rparr>"

definition sample_msg :: TaskMsg where
  "sample_msg = \<lparr> task_id = ''t1'', run_id = 1, task = sample_task \<rparr>"

definition sample_msg_no_ancestry :: TaskMsg where
  "sample_msg_no_ancestry =
     \<lparr> task_id = ''t2'', run_id = 1, task = sample_task\<lparr>ancestry := []\<rparr> \<rparr>"

definition sample_msg_node7 :: TaskMsg where
  "sample_msg_node7 =
     \<lparr> task_id = [], run_id = 1,
       task = \<lparr> producer = None, consumer = \<lparr> node_id = 7, anonymous = False \<rparr>,
                ancestry = [], delivered_at = [] \<rparr> \<rparr>"

section \<open>Validation of task messages\<close>

text \<open>
  C1. For every TaskIns or TaskRes message, \<open>is_valid_task\<close> returns true if and only if
  the consumer satisfies the coupling (anonymous implies node id 0, not anonymous implies
  node id different from 0), the producer satisfies the same coupling when the producer
  field is present, and the ancestry list is non-empty when the message is a TaskRes.
\<close>

theorem is_valid_task_iff:
  "is_valid_task message \<longleftrightarrow>
     node_coupled (consumer (task (msg_of message))) \<and>
     (\<forall>p. producer (task (msg_of message)) = Some p \<longrightarrow> node_coupled p) \<and>
     (is_TaskRes message \<longrightarrow> ancestry (task (msg_of message)) \<noteq> [])"
  by (cases "producer (task (msg_of message))")
     (auto simp: is_valid_task_def is_valid_task_run_def node_coupled_def Let_def)

theorem is_valid_task_iff_witness:
  "is_valid_task (TaskRes sample_msg) \<and> \<not> is_valid_task (TaskRes sample_msg_no_ancestry)"
  using is_valid_task_iff [of "TaskRes sample_msg"]
        is_valid_task_iff [of "TaskRes sample_msg_no_ancestry"]
  by (simp add: node_coupled_def sample_msg_def sample_msg_no_ancestry_def sample_task_def)

text \<open>
  C10. A TaskIns whose consumer, and producer if present, satisfy the coupling is valid
  even when its ancestry list is empty: the ancestry requirement is applied to TaskRes
  messages only.
\<close>

theorem task_ins_empty_ancestry_valid:
  assumes "node_coupled (consumer (task m))"
    and "\<forall>p. producer (task m) = Some p \<longrightarrow> node_coupled p"
    and "ancestry (task m) = []"
  shows "is_valid_task (TaskIns m)"
  using assms
  by (cases "producer (task m)")
     (auto simp: is_valid_task_def is_valid_task_run_def node_coupled_def Let_def)

theorem task_ins_empty_ancestry_valid_witness:
  "ancestry (task sample_msg_no_ancestry) = [] \<and> is_valid_task (TaskIns sample_msg_no_ancestry)"
proof -
  have c: "node_coupled (consumer (task sample_msg_no_ancestry))"
    by (simp add: node_coupled_def sample_msg_no_ancestry_def sample_task_def)
  have p: "\<forall>p. producer (task sample_msg_no_ancestry) = Some p \<longrightarrow> node_coupled p"
    by (simp add: node_coupled_def sample_msg_no_ancestry_def sample_task_def)
  have a: "ancestry (task sample_msg_no_ancestry) = []"
    by (simp add: sample_msg_no_ancestry_def sample_task_def)
  from task_ins_empty_ancestry_valid [OF c p a] a show ?thesis by simp
qed


section \<open>The driver client\<close>

text \<open>
  C7. Constructed without an invoker, the driver builds a RetryInvoker with the
  exponential wait generator, retrying on RpcError, with at most 10 tries and a budget of
  300 seconds, and with a give-up predicate that holds exactly when the status code of
  the error is not UNAVAILABLE.
\<close>

theorem driver_default_invoker:
  "wait_gen_factory (invoker (Driver_init a c None)) = exponential \<and>
   recoverable_exceptions (invoker (Driver_init a c None)) = RpcError_class \<and>
   max_tries (invoker (Driver_init a c None)) = Some 10 \<and>
   max_time (invoker (Driver_init a c None)) = Some 300 \<and>
   (\<exists>giveup. should_giveup (invoker (Driver_init a c None)) = Some giveup \<and>
      (\<forall>e. giveup e \<longleftrightarrow> code e \<noteq> UNAVAILABLE))"
  by (simp add: Driver_init_def)

lemma run_id_helper_not_instance_attr:
  "''_get_grpc_driver_and_run_id'' \<notin> set Driver_instance_attrs"
  by (simp add: Driver_instance_attrs_def)

lemma run_id_helper_not_in_namespace:
  "map_of Driver_namespace ''_get_grpc_driver_and_run_id'' = None"
  by (simp add: Driver_namespace_def)

lemma Driver_getattr_missing:
  "Driver_getattr ''_get_grpc_driver_and_run_id'' =
     Inl (AttributeError ''_get_grpc_driver_and_run_id'')"
  unfolding Driver_getattr_def
  using run_id_helper_not_instance_attr run_id_helper_not_in_namespace by simp

text \<open>
  C6. \<open>push_task_ins\<close> is meant to ensure the connection and the cached run identifier,
  stamp every instruction, push through the invoker and return the identifiers. The
  method it calls first, \<open>_get_grpc_driver_and_run_id\<close>, is defined nowhere in the class
  (the helper is still named \<open>_get_grpc_driver_and_workload_id\<close>), so every call, on any
  driver and any list, ends with \<open>AttributeError\<close> before anything else is done.
\<close>

theorem push_task_ins_raises:
  "push_task_ins env self task_ins_list =
     (Inl (AttributeError ''_get_grpc_driver_and_run_id''), self)"
  unfolding push_task_ins_def Driver_getattr_missing by simp

section \<open>The authentication interceptor\<close>

lemma decode_QUJD: "urlsafe_b64decode ''QUJD'' = Inr ''ABC''"
  by code_simp

lemma decode_a: "urlsafe_b64decode ''a'' = Inl binascii_Error"
  by code_simp

lemma decode_empty: "urlsafe_b64decode [] = Inr []"
  by (simp add: urlsafe_b64decode_def)

lemma decode_token: "urlsafe_b64decode ''U0FCQ3g='' = Inr ''SABCx''"
  by code_simp

lemma decode_QUJE: "urlsafe_b64decode ''QUJE'' = Inr ''ABD''"
  by code_simp

lemma encode_ABC: "urlsafe_b64encode ''ABC'' = ''QUJD''"
  by code_simp

lemma get_value_absent:
  "key \<notin> fst ` set md \<Longrightarrow> get_value_from_tuples key md = []"
proof -
  assume a: "key \<notin> fst ` set md"
  have "find (\<lambda>(k, v). k = key) md = None"
    using a by (induction md) (auto split: prod.splits)
  then show ?thesis by (simp add: get_value_from_tuples_def)
qed

lemma get_pk_first:
  "get_value_from_tuples PUBLIC_KEY_HEADER ((''public-key'', Str v) # rest) = v"
  by (simp add: get_value_from_tuples_def PUBLIC_KEY_HEADER_def)

lemma get_auth_second:
  "get_value_from_tuples AUTH_TOKEN_HEADER [(''public-key'', Str v), (''auth-token'', Str w)] = w"
  by (simp add: get_value_from_tuples_def AUTH_TOKEN_HEADER_def)

lemma toy_keys: "''ABC'' \<in> client_public_keys toy_interceptor"
  by (simp add: toy_interceptor_def)

lemma kind_exclusive: "is_authenticated_kind r \<Longrightarrow> \<not> is_CreateNodeRequest r"
  by (cases r) simp_all

lemma auth_steps_returned_iff:
  "(\<exists>evs. auth_steps lib self request md = (Returned (), evs)) \<longleftrightarrow> auth_ok lib self request md"
  by (auto simp: auth_steps_def auth_ok_def Let_def kind_exclusive split: sum.splits)

lemma auth_steps_no_handler:
  "\<not> handler_called (snd (auth_steps lib self request md))"
  by (auto simp: auth_steps_def handler_called_def Let_def split: sum.splits)

lemma lock_free_events:
  "LockAcquire \<notin> set (snd (auth_steps lib self request md)) \<and>
   LockRelease \<notin> set (snd (auth_steps lib self request md))"
  by (auto simp: auth_steps_def Let_def split: sum.splits)

lemma inside_lock_no_handler:
  "LockAcquire \<notin> set evs \<Longrightarrow> LockRelease \<notin> set evs \<Longrightarrow>
   handler_inside_lock True (evs @ rest) = handler_inside_lock True rest"
proof (induction evs)
  case Nil
  then show ?case by simp
next
  case (Cons e evs)
  then show ?case by (cases e) simp_all
qed

text \<open>
  C4. For a CreateNode request whose decoded public key is registered, the interceptor
  sends the server's public key, base64url-encoded under the \<open>public-key\<close> header, as
  initial metadata, and only then forwards the call to the wrapped handler.
\<close>

theorem create_node_sends_server_key:
  assumes "urlsafe_b64decode (get_value_from_tuples PUBLIC_KEY_HEADER md) = Inr kb"
    and "kb \<in> client_public_keys self"
    and "is_CreateNodeRequest request"
  shows "generic_method_handler lib self message_handler request md =
           (message_handler request,
            [LockAcquire,
             SendInitialMetadata
               [(''public-key'',
                 urlsafe_b64encode (public_key_to_bytes lib (server_public_key self)))],
             HandlerCall request,
             LockRelease])"
  using assms
  by (simp add: generic_method_handler_def auth_steps_def PUBLIC_KEY_HEADER_def)

theorem create_node_sends_server_key_witness:
  "generic_method_handler toy_crypto toy_interceptor echo_handler (CreateNodeRequest ''x'')
     [(''public-key'', Str ''QUJD'')] =
   (Returned (CreateNodeRequest ''x''),
    [LockAcquire, SendInitialMetadata [(''public-key'', ''QUJD'')],
     HandlerCall (CreateNodeRequest ''x''), LockRelease])"
proof -
  have d: "urlsafe_b64decode (get_value_from_tuples PUBLIC_KEY_HEADER
             [(''public-key'', Str ''QUJD'')]) = Inr ''ABC''"
    by (simp only: get_pk_first decode_QUJD)
  have k: "is_CreateNodeRequest (CreateNodeRequest ''x'')" by simp
  have e: "urlsafe_b64encode (public_key_to_bytes toy_crypto (server_public_key toy_interceptor))
             = ''QUJD''"
    using encode_ABC by (simp add: toy_crypto_def toy_interceptor_def)
  show ?thesis
    using create_node_sends_server_key [OF d toy_keys k, of toy_crypto echo_handler]
    by (simp only: e echo_handler_def)
qed

text \<open>
  C3, as amended. For a DeleteNode, PullTaskIns or PushTaskRes request whose decoded
  public key is registered, the interceptor decodes the \<open>auth-token\<close> header, converts
  the key bytes to a key object, derives the shared secret from the server's private key
  and that key, and verifies the HMAC of the serialized request under the secret, in this
  order. When all steps succeed and the check passes the call is forwarded; when the
  check fails the call is aborted as unauthenticated. When the token is not valid base64,
  or the library rejects the key bytes or the key agreement, that exception ends the call:
  no HMAC is verified and there is no unauthenticated abort.
\<close>

theorem hmac_check_for_authenticated_kinds:
  assumes "urlsafe_b64decode (get_value_from_tuples PUBLIC_KEY_HEADER md) = Inr kb"
    and "kb \<in> client_public_keys self"
    and "is_authenticated_kind request"
  shows "generic_method_handler lib self message_handler request md =
           (case urlsafe_b64decode (get_value_from_tuples AUTH_TOKEN_HEADER md) of
              Inl e \<Rightarrow> (Raised e, [LockAcquire, LockRelease])
            | Inr hmac_value \<Rightarrow>
                (case bytes_to_public_key lib kb of
                   Inl e \<Rightarrow> (Raised e, [LockAcquire, LockRelease])
                 | Inr client_public_key \<Rightarrow>
                     (case generate_shared_key lib (server_private_key self) client_public_key of
                        Inl e \<Rightarrow> (Raised e, [LockAcquire, LockRelease])
                      | Inr shared_secret \<Rightarrow>
                          if verify_hmac lib shared_secret (SerializeToString lib request)
                               hmac_value
                          then (message_handler request,
                                [LockAcquire, HandlerCall request, LockRelease])
                          else (Aborted UNAUTHENTICATED ''Access denied!'',
                                [LockAcquire, Abort UNAUTHENTICATED ''Access denied!'',
                                 LockRelease]))))"
proof -
  have nc: "\<not> is_CreateNodeRequest request"
    using assms(3) by (cases request) simp_all
  show ?thesis
    using assms nc
    by (simp add: generic_method_handler_def auth_steps_def Let_def
             split: sum.splits)
qed

theorem hmac_check_for_authenticated_kinds_witness:
  "generic_method_handler toy_crypto toy_interceptor echo_handler (DeleteNodeRequest ''x'')
     [(''public-key'', Str ''QUJD''), (''auth-token'', Str ''QUJD'')] =
   (Aborted UNAUTHENTICATED ''Access denied!'',
    [LockAcquire, Abort UNAUTHENTICATED ''Access denied!'', LockRelease])
   \<and>
   generic_method_handler toy_crypto toy_interceptor echo_handler (DeleteNodeRequest ''x'')
     [(''public-key'', Str ''QUJD''), (''auth-token'', Str ''U0FCQ3g='')] =
   (Returned (DeleteNodeRequest ''x''),
    [LockAcquire, HandlerCall (DeleteNodeRequest ''x''), LockRelease])"
proof -
  have d1: "urlsafe_b64decode (get_value_from_tuples PUBLIC_KEY_HEADER
             [(''public-key'', Str ''QUJD''), (''auth-token'', Str ''QUJD'')]) = Inr ''ABC''"
    by (simp only: get_pk_first decode_QUJD)
  have d2: "urlsafe_b64decode (get_value_from_tuples PUBLIC_KEY_HEADER
             [(''public-key'', Str ''QUJD''), (''auth-token'', Str ''U0FCQ3g='')]) = Inr ''ABC''"
    by (simp only: get_pk_first decode_QUJD)
  have k: "is_authenticated_kind (DeleteNodeRequest ''x'')" by simp
  have a: "generic_method_handler toy_crypto toy_interceptor echo_handler (DeleteNodeRequest ''x'')
     [(''public-key'', Str ''QUJD''), (''auth-token'', Str ''QUJD'')] =
   (Aborted UNAUTHENTICATED ''Access denied!'',
    [LockAcquire, Abort UNAUTHENTICATED ''Access denied!'', LockRelease])"
    using hmac_check_for_authenticated_kinds [OF d1 toy_keys k, of toy_crypto echo_handler]
    by (simp add: get_auth_second decode_QUJD toy_crypto_def toy_interceptor_def)
  have b: "generic_method_handler toy_crypto toy_interceptor echo_handler (DeleteNodeRequest ''x'')
     [(''public-key'', Str ''QUJD''), (''auth-token'', Str ''U0FCQ3g='')] =
   (Returned (DeleteNodeRequest ''x''),
    [LockAcquire, HandlerCall (DeleteNodeRequest ''x''), LockRelease])"
    using hmac_check_for_authenticated_kinds [OF d2 toy_keys k, of toy_crypto echo_handler]
    by (simp add: get_auth_second decode_token toy_crypto_def toy_interceptor_def
          echo_handler_def)
  from a b show ?thesis by simp
qed

text \<open>
  C3, as stated, fails: with a registered key and a PushTaskRes request, an \<open>auth-token\<close>
  header that is not valid base64 makes the decoding raise. No HMAC is verified, and the
  call is not aborted as unauthenticated, even with an HMAC check that can never pass.
\<close>

theorem malformed_token_raises:
  "generic_method_handler rejecting_crypto toy_interceptor echo_handler
     (PushTaskResRequest ''x'') [(''public-key'', Str ''QUJD''), (''auth-token'', Str ''a'')] =
   (Raised binascii_Error, [LockAcquire, LockRelease])"
  by (simp add: generic_method_handler_def auth_steps_def get_pk_first get_auth_second
        decode_QUJD decode_a toy_keys)

text \<open>
  C9. When the invocation metadata has no \<open>public-key\<close> header, the looked-up value is
  the empty string, it decodes to the empty byte string, and the call is aborted as
  unauthenticated unless the empty byte string is itself a registered key (in which case
  the key counts as known: a CreateNode request is forwarded).
\<close>

theorem missing_public_key_header:
  assumes "PUBLIC_KEY_HEADER \<notin> fst ` set md"
  shows "get_value_from_tuples PUBLIC_KEY_HEADER md = [] \<and>
         urlsafe_b64decode (get_value_from_tuples PUBLIC_KEY_HEADER md) = Inr [] \<and>
         ([] \<notin> client_public_keys self \<longrightarrow>
            generic_method_handler lib self message_handler request md =
              (Aborted UNAUTHENTICATED ''Access denied!'',
               [LockAcquire, Abort UNAUTHENTICATED ''Access denied!'', LockRelease])) \<and>
         ([] \<in> client_public_keys self \<and> is_CreateNodeRequest request \<longrightarrow>
            fst (generic_method_handler lib self message_handler request md) =
              message_handler request)"
  using get_value_absent [OF assms] decode_empty
  by (simp add: generic_method_handler_def auth_steps_def)

theorem missing_public_key_header_witness:
  "PUBLIC_KEY_HEADER \<notin> fst ` set [(''auth-token'', Str ''QUJD'')] \<and>
   [] \<notin> client_public_keys toy_interceptor \<and>
   generic_method_handler toy_crypto toy_interceptor echo_handler (CreateNodeRequest ''x'')
     [(''auth-token'', Str ''QUJD'')] =
     (Aborted UNAUTHENTICATED ''Access denied!'',
      [LockAcquire, Abort UNAUTHENTICATED ''Access denied!'', LockRelease])"
proof -
  have h: "PUBLIC_KEY_HEADER \<notin> fst ` set [(''auth-token'', Str ''QUJD'')]"
    by (simp add: PUBLIC_KEY_HEADER_def)
  have n: "[] \<notin> client_public_keys toy_interceptor"
    by (simp add: toy_interceptor_def)
  from missing_public_key_header [OF h, of toy_interceptor toy_crypto echo_handler
         "CreateNodeRequest ''x''"] h n
  show ?thesis by simp
qed

text \<open>
  C2, as amended. The call is forwarded to the wrapped handler exactly when \<open>auth_ok\<close>
  holds: the \<open>public-key\<close> header decodes to a registered key and the request is a
  CreateNode, or one of the three authenticated kinds whose HMAC verifies; otherwise the
  handler is not called. What happens instead is fixed case by case. A \<open>public-key\<close>
  header that is not valid base64 ends the call with the decoder's exception. A decoded
  key that is not registered, and a registered key with a request of none of the four
  kinds, abort the call as unauthenticated with the fixed message. For a registered key
  and one of the three authenticated kinds, an \<open>auth-token\<close> that is not valid base64
  or key material the crypto library rejects ends the call with that exception, and an
  HMAC that does not verify aborts it as unauthenticated with the fixed message.
\<close>

theorem interceptor_gate:
  "(auth_ok lib self request md \<longrightarrow>
      fst (generic_method_handler lib self message_handler request md) = message_handler request \<and>
      handler_called (snd (generic_method_handler lib self message_handler request md))) \<and>
   (\<not> auth_ok lib self request md \<longrightarrow>
      \<not> handler_called (snd (generic_method_handler lib self message_handler request md))) \<and>
   (urlsafe_b64decode (get_value_from_tuples PUBLIC_KEY_HEADER md) = Inl e \<longrightarrow>
      generic_method_handler lib self message_handler request md =
        (Raised e, [LockAcquire, LockRelease])) \<and>
   (urlsafe_b64decode (get_value_from_tuples PUBLIC_KEY_HEADER md) = Inr kb \<and>
    kb \<notin> client_public_keys self \<longrightarrow>
      generic_method_handler lib self message_handler request md =
        (Aborted UNAUTHENTICATED ''Access denied!'',
         [LockAcquire, Abort UNAUTHENTICATED ''Access denied!'', LockRelease])) \<and>
   (urlsafe_b64decode (get_value_from_tuples PUBLIC_KEY_HEADER md) = Inr kb \<and>
    kb \<in> client_public_keys self \<and>
    \<not> is_CreateNodeRequest request \<and> \<not> is_authenticated_kind request \<longrightarrow>
      generic_method_handler lib self message_handler request md =
        (Aborted UNAUTHENTICATED ''Access denied!'',
         [LockAcquire, Abort UNAUTHENTICATED ''Access denied!'', LockRelease])) \<and>
   (urlsafe_b64decode (get_value_from_tuples PUBLIC_KEY_HEADER md) = Inr kb \<and>
    kb \<in> client_public_keys self \<and> is_CreateNodeRequest request \<longrightarrow>
      auth_ok lib self request md) \<and>
   (urlsafe_b64decode (get_value_from_tuples PUBLIC_KEY_HEADER md) = Inr kb \<and>
    kb \<in> client_public_keys self \<and> is_authenticated_kind request \<longrightarrow>
      generic_method_handler lib self message_handler request md =
        (case urlsafe_b64decode (get_value_from_tuples AUTH_TOKEN_HEADER md) of
           Inl x \<Rightarrow> (Raised x, [LockAcquire, LockRelease])
         | Inr hmac_value \<Rightarrow>
             (case bytes_to_public_key lib kb of
                Inl x \<Rightarrow> (Raised x, [LockAcquire, LockRelease])
              | Inr client_public_key \<Rightarrow>
                  (case generate_shared_key lib (server_private_key self) client_public_key of
                     Inl x \<Rightarrow> (Raised x, [LockAcquire, LockRelease])
                   | Inr shared_secret \<Rightarrow>
                       if verify_hmac lib shared_secret (SerializeToString lib request)
                            hmac_value
                       then (message_handler request,
                             [LockAcquire, HandlerCall request, LockRelease])
                       else (Aborted UNAUTHENTICATED ''Access denied!'',
                             [LockAcquire, Abort UNAUTHENTICATED ''Access denied!'',
                              LockRelease])))))"
proof -
  have fw: "auth_ok lib self request md \<longrightarrow>
      fst (generic_method_handler lib self message_handler request md) = message_handler request \<and>
      handler_called (snd (generic_method_handler lib self message_handler request md))"
  proof
    assume "auth_ok lib self request md"
    then obtain evs where "auth_steps lib self request md = (Returned (), evs)"
      using auth_steps_returned_iff [of lib self request md] by blast
    then show "fst (generic_method_handler lib self message_handler request md) =
                 message_handler request \<and>
               handler_called (snd (generic_method_handler lib self message_handler request md))"
      by (simp add: generic_method_handler_def handler_called_def)
  qed
  have nf: "\<not> auth_ok lib self request md \<longrightarrow>
      \<not> handler_called (snd (generic_method_handler lib self message_handler request md))"
  proof
    assume nok: "\<not> auth_ok lib self request md"
    obtain a evs where p: "auth_steps lib self request md = (a, evs)"
      by (cases "auth_steps lib self request md")
    have nh: "\<not> list_ex is_HandlerCall evs"
      using auth_steps_no_handler [of lib self request md] p by (simp add: handler_called_def)
    have "\<not> (\<exists>u. a = Returned u)"
      using nok p auth_steps_returned_iff [of lib self request md] by auto
    then show "\<not> handler_called
                  (snd (generic_method_handler lib self message_handler request md))"
      using p nh by (cases a) (simp_all add: generic_method_handler_def handler_called_def)
  qed
  have rz: "urlsafe_b64decode (get_value_from_tuples PUBLIC_KEY_HEADER md) = Inl e \<longrightarrow>
      generic_method_handler lib self message_handler request md =
        (Raised e, [LockAcquire, LockRelease])"
    by (simp add: generic_method_handler_def auth_steps_def)
  have uk: "urlsafe_b64decode (get_value_from_tuples PUBLIC_KEY_HEADER md) = Inr kb \<and>
      kb \<notin> client_public_keys self \<longrightarrow>
      generic_method_handler lib self message_handler request md =
        (Aborted UNAUTHENTICATED ''Access denied!'',
         [LockAcquire, Abort UNAUTHENTICATED ''Access denied!'', LockRelease])"
    by (simp add: generic_method_handler_def auth_steps_def)
  have ok: "urlsafe_b64decode (get_value_from_tuples PUBLIC_KEY_HEADER md) = Inr kb \<and>
      kb \<in> client_public_keys self \<and>
      \<not> is_CreateNodeRequest request \<and> \<not> is_authenticated_kind request \<longrightarrow>
      generic_method_handler lib self message_handler request md =
        (Aborted UNAUTHENTICATED ''Access denied!'',
         [LockAcquire, Abort UNAUTHENTICATED ''Access denied!'', LockRelease])"
    by (simp add: generic_method_handler_def auth_steps_def)
  have cr: "urlsafe_b64decode (get_value_from_tuples PUBLIC_KEY_HEADER md) = Inr kb \<and>
      kb \<in> client_public_keys self \<and> is_CreateNodeRequest request \<longrightarrow>
      auth_ok lib self request md"
    by (simp add: auth_ok_def)
  have ak: "urlsafe_b64decode (get_value_from_tuples PUBLIC_KEY_HEADER md) = Inr kb \<and>
      kb \<in> client_public_keys self \<and> is_authenticated_kind request \<longrightarrow>
      generic_method_handler lib self message_handler request md =
        (case urlsafe_b64decode (get_value_from_tuples AUTH_TOKEN_HEADER md) of
           Inl x \<Rightarrow> (Raised x, [LockAcquire, LockRelease])
         | Inr hmac_value \<Rightarrow>
             (case bytes_to_public_key lib kb of
                Inl x \<Rightarrow> (Raised x, [LockAcquire, LockRelease])
              | Inr client_public_key \<Rightarrow>
                  (case generate_shared_key lib (server_private_key self) client_public_key of
                     Inl x \<Rightarrow> (Raised x, [LockAcquire, LockRelease])
                   | Inr shared_secret \<Rightarrow>
                       if verify_hmac lib shared_secret (SerializeToString lib request)
                            hmac_value
                       then (message_handler request,
                             [LockAcquire, HandlerCall request, LockRelease])
                       else (Aborted UNAUTHENTICATED ''Access denied!'',
                             [LockAcquire, Abort UNAUTHENTICATED ''Access denied!'',
                              LockRelease]))))"
  proof
    assume h: "urlsafe_b64decode (get_value_from_tuples PUBLIC_KEY_HEADER md) = Inr kb \<and>
      kb \<in> client_public_keys self \<and> is_authenticated_kind request"
    then have nc: "\<not> is_CreateNodeRequest request" by (simp add: kind_exclusive)
    from h nc show "generic_method_handler lib self message_handler request md =
        (case urlsafe_b64decode (get_value_from_tuples AUTH_TOKEN_HEADER md) of
           Inl x \<Rightarrow> (Raised x, [LockAcquire, LockRelease])
         | Inr hmac_value \<Rightarrow>
             (case bytes_to_public_key lib kb of
                Inl x \<Rightarrow> (Raised x, [LockAcquire, LockRelease])
              | Inr client_public_key \<Rightarrow>
                  (case generate_shared_key lib (server_private_key self) client_public_key of
                     Inl x \<Rightarrow> (Raised x, [LockAcquire, LockRelease])
                   | Inr shared_secret \<Rightarrow>
                       if verify_hmac lib shared_secret (SerializeToString lib request)
                            hmac_value
                       then (message_handler request,
                             [LockAcquire, HandlerCall request, LockRelease])
                       else (Aborted UNAUTHENTICATED ''Access denied!'',
                             [LockAcquire, Abort UNAUTHENTICATED ''Access denied!'',
                              LockRelease]))))"
      by (simp add: generic_method_handler_def auth_steps_def Let_def split: sum.splits)
  qed
  from fw nf rz uk ok cr ak show ?thesis by blast
qed

theorem interceptor_gate_witness:
  "auth_ok toy_crypto toy_interceptor (CreateNodeRequest ''x'') [(''public-key'', Str ''QUJD'')] \<and>
   fst (generic_method_handler toy_crypto toy_interceptor echo_handler (CreateNodeRequest ''x'')
          [(''public-key'', Str ''QUJD'')]) = Returned (CreateNodeRequest ''x'') \<and>
   ''ABD'' \<notin> client_public_keys toy_interceptor \<and>
   generic_method_handler toy_crypto toy_interceptor echo_handler (CreateNodeRequest ''x'')
     [(''public-key'', Str ''QUJE'')] =
     (Aborted UNAUTHENTICATED ''Access denied!'',
      [LockAcquire, Abort UNAUTHENTICATED ''Access denied!'', LockRelease]) \<and>
   generic_method_handler toy_crypto toy_interceptor echo_handler (OtherRequest ''x'')
     [(''public-key'', Str ''QUJD'')] =
     (Aborted UNAUTHENTICATED ''Access denied!'',
      [LockAcquire, Abort UNAUTHENTICATED ''Access denied!'', LockRelease])"
proof -
  have ok: "auth_ok toy_crypto toy_interceptor (CreateNodeRequest ''x'')
              [(''public-key'', Str ''QUJD'')]"
    by (simp add: auth_ok_def get_pk_first decode_QUJD toy_keys)
  have d1: "urlsafe_b64decode (get_value_from_tuples PUBLIC_KEY_HEADER
              [(''public-key'', Str ''QUJE'')]) = Inr ''ABD''"
    by (simp only: get_pk_first decode_QUJE)
  have d2: "urlsafe_b64decode (get_value_from_tuples PUBLIC_KEY_HEADER
              [(''public-key'', Str ''QUJD'')]) = Inr ''ABC''"
    by (simp only: get_pk_first decode_QUJD)
  have nk: "''ABD'' \<notin> client_public_keys toy_interceptor"
    by (simp add: toy_interceptor_def)
  have k3: "\<not> is_CreateNodeRequest (OtherRequest ''x'') \<and>
            \<not> is_authenticated_kind (OtherRequest ''x'')" by simp
  from interceptor_gate [of toy_crypto toy_interceptor "CreateNodeRequest ''x''"
         "[(''public-key'', Str ''QUJD'')]" echo_handler] ok
  have a: "fst (generic_method_handler toy_crypto toy_interceptor echo_handler
                  (CreateNodeRequest ''x'') [(''public-key'', Str ''QUJD'')]) =
             Returned (CreateNodeRequest ''x'')"
    by (simp add: echo_handler_def)
  from interceptor_gate [of toy_crypto toy_interceptor "CreateNodeRequest ''x''"
         "[(''public-key'', Str ''QUJE'')]" echo_handler _ "''ABD''"] d1 nk
  have b: "generic_method_handler toy_crypto toy_interceptor echo_handler
             (CreateNodeRequest ''x'') [(''public-key'', Str ''QUJE'')] =
           (Aborted UNAUTHENTICATED ''Access denied!'',
            [LockAcquire, Abort UNAUTHENTICATED ''Access denied!'', LockRelease])"
    by blast
  from interceptor_gate [of toy_crypto toy_interceptor "OtherRequest ''x''"
         "[(''public-key'', Str ''QUJD'')]" echo_handler _ "''ABC''"] d2 toy_keys k3
  have c: "generic_method_handler toy_crypto toy_interceptor echo_handler
             (OtherRequest ''x'') [(''public-key'', Str ''QUJD'')] =
           (Aborted UNAUTHENTICATED ''Access denied!'',
            [LockAcquire, Abort UNAUTHENTICATED ''Access denied!'', LockRelease])"
    by blast
  from ok a nk b c show ?thesis by blast
qed

text \<open>
  C2, as stated, fails: a \<open>public-key\<close> header that is not valid base64 makes the
  decoding raise, so the call is not authenticated and yet it is not aborted with the
  unauthenticated status.
\<close>

theorem malformed_key_header_raises:
  "\<not> auth_ok toy_crypto toy_interceptor (CreateNodeRequest ''x'') [(''public-key'', Str ''a'')] \<and>
   generic_method_handler toy_crypto toy_interceptor echo_handler (CreateNodeRequest ''x'')
     [(''public-key'', Str ''a'')] = (Raised binascii_Error, [LockAcquire, LockRelease])"
  by (simp add: auth_ok_def generic_method_handler_def auth_steps_def get_pk_first decode_a)

text \<open>
  C8, as amended. The lock of the interceptor is taken before the first authentication
  step and released after the last event of the call; the wrapped handler, when it is
  called, is called while the lock is held.
\<close>

theorem lock_spans_whole_call:
  "(\<exists>evs. snd (generic_method_handler lib self message_handler request md) =
            [LockAcquire] @ evs @ [LockRelease] \<and>
          LockAcquire \<notin> set evs \<and> LockRelease \<notin> set evs \<and>
          (handler_called evs \<longleftrightarrow> auth_ok lib self request md)) \<and>
   handler_inside_lock False (snd (generic_method_handler lib self message_handler request md))"
proof (cases "auth_steps lib self request md")
  case (Pair a evs)
  have lf: "LockAcquire \<notin> set evs \<and> LockRelease \<notin> set evs"
    using lock_free_events [of lib self request md] Pair by simp
  have nh: "\<not> handler_called evs"
    using auth_steps_no_handler [of lib self request md] Pair by simp
  have nh': "\<not> list_ex is_HandlerCall evs"
    using nh by (simp add: handler_called_def)
  have ok: "auth_ok lib self request md \<longleftrightarrow> (\<exists>u. a = Returned u)"
    using auth_steps_returned_iff [of lib self request md] Pair by auto
  show ?thesis
  proof (cases a)
    case (Returned u)
    have tr: "snd (generic_method_handler lib self message_handler request md) =
                [LockAcquire] @ (evs @ [HandlerCall request]) @ [LockRelease]"
      using Pair Returned by (simp add: generic_method_handler_def)
    have il: "handler_inside_lock False
                (snd (generic_method_handler lib self message_handler request md))"
      using tr lf inside_lock_no_handler [of evs "[HandlerCall request, LockRelease]"]
      by simp
    have "LockAcquire \<notin> set (evs @ [HandlerCall request]) \<and>
          LockRelease \<notin> set (evs @ [HandlerCall request]) \<and>
          (handler_called (evs @ [HandlerCall request]) \<longleftrightarrow> auth_ok lib self request md)"
      using lf ok Returned by (simp add: handler_called_def)
    with tr il show ?thesis by blast
  next
    case (Aborted c d)
    have tr: "snd (generic_method_handler lib self message_handler request md) =
                [LockAcquire] @ evs @ [LockRelease]"
      using Pair Aborted by (simp add: generic_method_handler_def)
    have il: "handler_inside_lock False
                (snd (generic_method_handler lib self message_handler request md))"
      using tr lf inside_lock_no_handler [of evs "[LockRelease]"] by simp
    have "handler_called evs \<longleftrightarrow> auth_ok lib self request md"
      using nh ok Aborted by simp
    with tr il lf show ?thesis by blast
  next
    case (Raised e)
    have tr: "snd (generic_method_handler lib self message_handler request md) =
                [LockAcquire] @ evs @ [LockRelease]"
      using Pair Raised by (simp add: generic_method_handler_def)
    have il: "handler_inside_lock False
                (snd (generic_method_handler lib self message_handler request md))"
      using tr lf inside_lock_no_handler [of evs "[LockRelease]"] by simp
    have "handler_called evs \<longleftrightarrow> auth_ok lib self request md"
      using nh ok Raised by simp
    with tr il lf show ?thesis by blast
  qed
qed

text \<open>
  C8, as stated, fails: in the call of an authenticated CreateNode request the wrapped
  handler does not run outside the lock.
\<close>

theorem handler_runs_under_lock:
  "\<not> handler_outside_lock False
       (snd (generic_method_handler toy_crypto toy_interceptor echo_handler
               (CreateNodeRequest ''x'') [(''public-key'', Str ''QUJD'')]))"
  by (simp add: generic_method_handler_def auth_steps_def get_pk_first decode_QUJD toy_keys)


section \<open>At-most-once delivery of instructions\<close>

lemma mark_delivered_id [simp]: "task_id (mark_delivered now ids t) = task_id t"
  by (simp add: mark_delivered_def)

lemma map_task_id_mark [simp]:
  "map task_id (map (mark_delivered now ids) xs) = map task_id xs"
  by (induction xs) simp_all

lemma get_task_ins_fst:
  "map task_id (fst (get_task_ins n l now st)) = chosen_ids n l st"
  by (simp add: get_task_ins_def chosen_ids_def Let_def)

lemma get_task_ins_store_ids:
  "map task_id (task_ins_store (snd (get_task_ins n l now st))) = map task_id (task_ins_store st)"
  by (simp add: get_task_ins_def Let_def)

lemma chosen_subset_matches:
  "set (case l of None \<Rightarrow> filter P xs | Some k \<Rightarrow> take (nat k) (filter P xs)) \<subseteq> {t \<in> set xs. P t}"
  by (cases l) (auto dest: in_set_takeD)

lemma chosen_ids_undelivered:
  "x \<in> set (chosen_ids n l st) \<Longrightarrow>
     \<exists>t \<in> set (task_ins_store st). task_id t = x \<and> delivered_at (task t) = []"
  using chosen_subset_matches [of "task_ins_matches n" "task_ins_store st" l]
  by (auto simp: chosen_ids_def task_ins_matches_def)

lemma chosen_ids_distinct:
  assumes "distinct (map task_id (task_ins_store st))"
  shows "distinct (map task_id (fst (get_task_ins n l now st)))"
proof -
  have f: "distinct (map task_id (filter (task_ins_matches n) (task_ins_store st)))"
    using assms by (rule distinct_map_filter)
  show ?thesis
    unfolding get_task_ins_fst chosen_ids_def
    using f by (cases l) (simp_all add: take_map [symmetric])
qed

lemma returned_marked:
  "t \<in> set (fst (get_task_ins n l now st)) \<Longrightarrow> delivered_at (task t) = now"
  by (auto simp: get_task_ins_def Let_def mark_delivered_def)

lemma returned_in_store:
  "t \<in> set (fst (get_task_ins n l now st)) \<Longrightarrow>
     t \<in> set (task_ins_store (snd (get_task_ins n l now st)))"
proof -
  assume a: "t \<in> set (fst (get_task_ins n l now st))"
  let ?c = "case l of None \<Rightarrow> filter (task_ins_matches n) (task_ins_store st)
            | Some k \<Rightarrow> take (nat k) (filter (task_ins_matches n) (task_ins_store st))"
  have "set ?c \<subseteq> set (task_ins_store st)"
    using chosen_subset_matches [of "task_ins_matches n" "task_ins_store st" l] by auto
  then show ?thesis
    using a by (auto simp: get_task_ins_def Let_def)
qed

lemma delivered_excluded:
  assumes d: "distinct (map task_id (task_ins_store st))"
    and t: "t \<in> set (task_ins_store st)" and del: "delivered_at (task t) \<noteq> []"
  shows "task_id t \<notin> set (map task_id (fst (get_task_ins n l now st)))"
proof
  assume "task_id t \<in> set (map task_id (fst (get_task_ins n l now st)))"
  then have "task_id t \<in> set (chosen_ids n l st)" by (simp only: get_task_ins_fst)
  then obtain t' where t': "t' \<in> set (task_ins_store st)" "task_id t' = task_id t"
      "delivered_at (task t') = []"
    using chosen_ids_undelivered by blast
  from d have "inj_on task_id (set (task_ins_store st))" by (simp add: distinct_map)
  with t t' have "t' = t" by (auto dest: inj_onD)
  with t' del show False by simp
qed

lemma delivered_after_mark:
  "now \<noteq> [] \<Longrightarrow>
   set (map task_id (filter (\<lambda>t. delivered_at (task t) \<noteq> [])
                       (map (mark_delivered now ids) xs))) =
   set (map task_id (filter (\<lambda>t. delivered_at (task t) \<noteq> []) xs)) \<union>
   (set ids \<inter> task_id ` set xs)"
  by (induction xs) (auto simp: mark_delivered_def)

lemma delivered_ids_after_get:
  assumes "now \<noteq> []"
  shows "delivered_ids (snd (get_task_ins n l now st)) =
           delivered_ids st \<union> set (map task_id (fst (get_task_ins n l now st)))"
proof -
  have sub: "set (chosen_ids n l st) \<subseteq> task_id ` set (task_ins_store st)"
    using chosen_ids_undelivered by fastforce
  have "delivered_ids (snd (get_task_ins n l now st)) =
          delivered_ids st \<union> (set (chosen_ids n l st) \<inter> task_id ` set (task_ins_store st))"
    using delivered_after_mark [OF assms, of "chosen_ids n l st" "task_ins_store st"]
    by (simp add: delivered_ids_def get_task_ins_def Let_def chosen_ids_def)
  with sub have "delivered_ids (snd (get_task_ins n l now st)) =
          delivered_ids st \<union> set (chosen_ids n l st)"
    by blast
  then show ?thesis by (simp only: get_task_ins_fst)
qed

lemma returned_not_delivered_before:
  assumes "distinct (map task_id (task_ins_store st))"
  shows "set (map task_id (fst (get_task_ins n l now st))) \<inter> delivered_ids st = {}"
proof -
  have "x \<notin> set (map task_id (fst (get_task_ins n l now st)))" if "x \<in> delivered_ids st" for x
  proof -
    from that obtain t where "t \<in> set (task_ins_store st)" "delivered_at (task t) \<noteq> []"
        "task_id t = x"
      by (auto simp: delivered_ids_def)
    with delivered_excluded [OF assms, of t n l now] show ?thesis by simp
  qed
  then show ?thesis by blast
qed

lemma store_task_ins_distinct:
  "distinct (map task_id (task_ins_store st)) \<Longrightarrow>
   distinct (map task_id (task_ins_store (snd (store_task_ins u t st))))"
  by (auto simp: store_task_ins_def Let_def)

lemma store_task_ins_delivered:
  "delivered_ids (snd (store_task_ins u t st)) = delivered_ids st"
  by (auto simp: store_task_ins_def Let_def delivered_ids_def)

lemma returned_by_distinct:
  "distinct (map task_id (task_ins_store st)) \<Longrightarrow> list_all op_time_set ops \<Longrightarrow>
   distinct (map task_id (returned_by ops st)) \<and>
   set (map task_id (returned_by ops st)) \<inter> delivered_ids st = {}"
proof (induction ops arbitrary: st)
  case Nil
  then show ?case by simp
next
  case (Cons a ops)
  show ?case
  proof (cases a)
    case (StoreTaskIns u t)
    have "distinct (map task_id (task_ins_store (snd (store_task_ins u t st))))"
      using Cons.prems(1) by (rule store_task_ins_distinct)
    from Cons.IH [OF this] Cons.prems(2) StoreTaskIns
    show ?thesis by (simp add: store_task_ins_delivered)
  next
    case (GetTaskIns n l now)
    let ?r = "fst (get_task_ins n l now st)"
    let ?st = "snd (get_task_ins n l now st)"
    from Cons.prems(2) GetTaskIns have now: "now \<noteq> []" and rest: "list_all op_time_set ops"
      by simp_all
    have d': "distinct (map task_id (task_ins_store ?st))"
      using Cons.prems(1) by (simp only: get_task_ins_store_ids)
    from Cons.IH [OF d' rest]
    have ih: "distinct (map task_id (returned_by ops ?st))"
      "set (map task_id (returned_by ops ?st)) \<inter> delivered_ids ?st = {}"
      by simp_all
    have dr: "distinct (map task_id ?r)"
      using Cons.prems(1) by (rule chosen_ids_distinct)
    have da: "delivered_ids ?st = delivered_ids st \<union> set (map task_id ?r)"
      using now by (rule delivered_ids_after_get)
    have nb: "set (map task_id ?r) \<inter> delivered_ids st = {}"
      using Cons.prems(1) by (rule returned_not_delivered_before)
    have "returned_by (a # ops) st = ?r @ returned_by ops ?st"
      using GetTaskIns by simp
    then show ?thesis
      using ih dr da nb by auto
  qed
qed

lemma sample_store:
  "task_ins_store (snd (store_task_ins ''u1'' sample_msg_node7 empty_State)) =
     [sample_msg_node7\<lparr>task_id := ''u1''\<rparr>]"
  by (simp add: store_task_ins_def empty_State_def sample_msg_node7_def is_valid_task_def
        is_valid_task_run_def Let_def)

lemma sample_first_get:
  "map task_id (fst (get_task_ins (Some 7) None ''2024-01-01''
      (snd (store_task_ins ''u1'' sample_msg_node7 empty_State)))) = [''u1'']"
  unfolding get_task_ins_fst chosen_ids_def sample_store
  by (simp add: task_ins_matches_def sample_msg_node7_def)

text \<open>
  C5. On a store whose identifiers are distinct, with a non-empty timestamp: every
  instruction a \<open>get_task_ins\<close> call returns has \<open>delivered_at\<close> set to the time of the
  call, in the result and in the store; an instruction whose \<open>delivered_at\<close> is already
  set is not returned; no later call, with the same or other arguments, returns an
  instruction the first call returned; and over any history of store and get calls no
  identifier is returned twice.
\<close>

theorem get_task_ins_at_most_once:
  assumes "distinct (map task_id (task_ins_store st))" and "now \<noteq> []"
  shows
    "(\<forall>t \<in> set (fst (get_task_ins n l now st)).
        delivered_at (task t) = now \<and>
        t \<in> set (task_ins_store (snd (get_task_ins n l now st)))) \<and>
     (\<forall>t \<in> set (task_ins_store st).
        delivered_at (task t) \<noteq> [] \<longrightarrow>
        task_id t \<notin> set (map task_id (fst (get_task_ins n l now st)))) \<and>
     set (map task_id (fst (get_task_ins n' l' now' (snd (get_task_ins n l now st))))) \<inter>
       set (map task_id (fst (get_task_ins n l now st))) = {} \<and>
     (list_all op_time_set ops \<longrightarrow> distinct (map task_id (returned_by ops st)))"
proof -
  let ?r = "fst (get_task_ins n l now st)"
  let ?st = "snd (get_task_ins n l now st)"
  have a: "\<forall>t \<in> set ?r. delivered_at (task t) = now \<and> t \<in> set (task_ins_store ?st)"
    using returned_marked returned_in_store by blast
  have b: "\<forall>t \<in> set (task_ins_store st).
             delivered_at (task t) \<noteq> [] \<longrightarrow> task_id t \<notin> set (map task_id ?r)"
    using delivered_excluded [OF assms(1)] by blast
  have d': "distinct (map task_id (task_ins_store ?st))"
    using assms(1) by (simp only: get_task_ins_store_ids)
  have "set (map task_id (fst (get_task_ins n' l' now' ?st))) \<inter> delivered_ids ?st = {}"
    using d' by (rule returned_not_delivered_before)
  moreover have "set (map task_id ?r) \<subseteq> delivered_ids ?st"
    using delivered_ids_after_get [OF assms(2), of n l st] by blast
  ultimately have c: "set (map task_id (fst (get_task_ins n' l' now' ?st))) \<inter>
                        set (map task_id ?r) = {}"
    by blast
  have d: "list_all op_time_set ops \<longrightarrow> distinct (map task_id (returned_by ops st))"
    using returned_by_distinct [OF assms(1)] by blast
  from a b c d show ?thesis by blast
qed

theorem get_task_ins_at_most_once_witness:
  "distinct (map task_id
     (task_ins_store (snd (store_task_ins ''u1'' sample_msg_node7 empty_State)))) \<and>
   map task_id (fst (get_task_ins (Some 7) None ''2024-01-01''
      (snd (store_task_ins ''u1'' sample_msg_node7 empty_State)))) = [''u1''] \<and>
   ''u1'' \<notin> set (map task_id (fst (get_task_ins (Some 7) None ''2024-01-01''
      (snd (get_task_ins (Some 7) None ''2024-01-01''
         (snd (store_task_ins ''u1'' sample_msg_node7 empty_State)))))))"
proof -
  let ?st = "snd (store_task_ins ''u1'' sample_msg_node7 empty_State)"
  have d: "distinct (map task_id (task_ins_store ?st))"
    by (simp add: sample_store)
  have n: "''2024-01-01'' \<noteq> []" by simp
  from get_task_ins_at_most_once [OF d n, of "Some 7" None "Some 7" None "''2024-01-01''" "[]"]
  have "set (map task_id (fst (get_task_ins (Some 7) None ''2024-01-01''
               (snd (get_task_ins (Some 7) None ''2024-01-01'' ?st))))) \<inter>
        set (map task_id (fst (get_task_ins (Some 7) None ''2024-01-01'' ?st))) = {}"
    by blast
  with sample_first_get d show ?thesis by simp
qed

end
